theory Spec2Isabelle
  imports Main "HOL-Library.Sublist" "HOL-Library.AList"
begin

section \<open>Python strings\<close>

text \<open>
  The program is Python (\<^verbatim>\<open>streamlit_app.py\<close>). Its strings are modelled as
  \<^typ>\<open>string\<close>, one \<^typ>\<open>char\<close> per code point: the type holds the code points
  below 256 (ASCII and Latin-1), and the string built-ins \<^verbatim>\<open>str.lower\<close>,
  \<^verbatim>\<open>in\<close>, \<^verbatim>\<open>str.splitlines\<close>, \<^verbatim>\<open>str.split\<close>, \<^verbatim>\<open>str.strip\<close> and
  \<^verbatim>\<open>str.istitle\<close> are modelled as Python computes them on these code points.
\<close>

text \<open>
  The uppercase letters: \<^verbatim>\<open>A\<close> to \<^verbatim>\<open>Z\<close> and the Latin-1 capitals 0xC0 to 0xDE
  without the multiplication sign 0xD7. \<open>lower_letters\<close> lists, position by position,
  what \<^verbatim>\<open>str.lower\<close> makes of them: \<^verbatim>\<open>a\<close> to \<^verbatim>\<open>z\<close> and 0xE0 to 0xFE without
  the division sign 0xF7.
\<close>

definition upper_letters :: string where
  "upper_letters = ''ABCDEFGHIJKLMNOPQRSTUVWXYZ'' @
     [CHR 0xC0, CHR 0xC1, CHR 0xC2, CHR 0xC3, CHR 0xC4, CHR 0xC5, CHR 0xC6, CHR 0xC7,
     CHR 0xC8, CHR 0xC9, CHR 0xCA, CHR 0xCB, CHR 0xCC, CHR 0xCD, CHR 0xCE, CHR 0xCF,
     CHR 0xD0, CHR 0xD1, CHR 0xD2, CHR 0xD3, CHR 0xD4, CHR 0xD5, CHR 0xD6, CHR 0xD8,
     CHR 0xD9, CHR 0xDA, CHR 0xDB, CHR 0xDC, CHR 0xDD, CHR 0xDE]"

definition lower_letters :: string where
  "lower_letters = ''abcdefghijklmnopqrstuvwxyz'' @
     [CHR 0xE0, CHR 0xE1, CHR 0xE2, CHR 0xE3, CHR 0xE4, CHR 0xE5, CHR 0xE6, CHR 0xE7,
     CHR 0xE8, CHR 0xE9, CHR 0xEA, CHR 0xEB, CHR 0xEC, CHR 0xED, CHR 0xEE, CHR 0xEF,
     CHR 0xF0, CHR 0xF1, CHR 0xF2, CHR 0xF3, CHR 0xF4, CHR 0xF5, CHR 0xF6, CHR 0xF8,
     CHR 0xF9, CHR 0xFA, CHR 0xFB, CHR 0xFC, CHR 0xFD, CHR 0xFE]"

text \<open>
  The lowercase letters that are the image of no capital below 256: the ordinal
  indicators 0xAA and 0xBA, the micro sign 0xB5, sharp s 0xDF and y with diaeresis 0xFF.
\<close>

definition other_lower_letters :: string where
  "other_lower_letters = [CHR 0xAA, CHR 0xB5, CHR 0xBA, CHR 0xDF, CHR 0xFF]"

definition lower_char :: "char \<Rightarrow> char" where
  "lower_char c = (case map_of (zip upper_letters lower_letters) c of Some l \<Rightarrow> l | None \<Rightarrow> c)"

text \<open>\<^verbatim>\<open>s.lower()\<close>\<close>

definition lower :: "string \<Rightarrow> string" where
  "lower s = map lower_char s"

text \<open>\<^verbatim>\<open>sub in s\<close> on strings: \<open>sub\<close> starts at some position of \<open>s\<close>.\<close>

fun str_in :: "string \<Rightarrow> string \<Rightarrow> bool" where
  "str_in sub [] = (sub = [])"
| "str_in sub (c # cs) = (prefix sub (c # cs) \<or> str_in sub cs)"

text \<open>
  The blanks of \<^verbatim>\<open>str.strip()\<close> and \<^verbatim>\<open>str.split()\<close>: tab, line feed,
  vertical tab, form feed, carriage return, the four separators 0x1C to 0x1F, space,
  next line 0x85 and the no-break space 0xA0.
\<close>

definition is_space :: "char \<Rightarrow> bool" where
  "is_space c \<longleftrightarrow> c \<in> set [CHR 0x09, CHR 0x0A, CHR 0x0B, CHR 0x0C, CHR 0x0D,
                              CHR 0x1C, CHR 0x1D, CHR 0x1E, CHR 0x1F, CHR '' '',
                              CHR 0x85, CHR 0xA0]"

text \<open>
  The line boundaries of \<^verbatim>\<open>str.splitlines()\<close>: line feed, vertical tab, form feed,
  carriage return (which a line feed may follow, see below), the separators 0x1C to
  0x1E and next line 0x85.
\<close>

definition is_linebreak :: "char \<Rightarrow> bool" where
  "is_linebreak c \<longleftrightarrow> c \<in> set [CHR 0x0A, CHR 0x0B, CHR 0x0C, CHR 0x0D, CHR 0x1C, CHR 0x1D, CHR 0x1E,
                                  CHR 0x85]"

text \<open>
  \<^verbatim>\<open>text.splitlines()\<close>: the lines without their boundaries; a carriage return
  followed by a line feed is one boundary; no empty last line.
\<close>

fun splitlines_from :: "string \<Rightarrow> string \<Rightarrow> string list" where
  "splitlines_from cur [] = (if cur = [] then [] else [cur])"
| "splitlines_from cur [c] = (if is_linebreak c then [cur] else [cur @ [c]])"
| "splitlines_from cur (c # d # ds) =
     (if c = CHR 0x0D \<and> d = CHR 0x0A then cur # splitlines_from [] ds
      else if is_linebreak c then cur # splitlines_from [] (d # ds)
      else splitlines_from (cur @ [c]) (d # ds))"

definition splitlines :: "string \<Rightarrow> string list" where
  "splitlines text = splitlines_from [] text"

text \<open>\<^verbatim>\<open>s.split(sep)\<close> for a one-character separator: empty pieces are kept.\<close>

fun split_from :: "char \<Rightarrow> string \<Rightarrow> string \<Rightarrow> string list" where
  "split_from sep cur [] = [cur]"
| "split_from sep cur (c # cs) =
     (if c = sep then cur # split_from sep [] cs else split_from sep (cur @ [c]) cs)"

definition split_on :: "char \<Rightarrow> string \<Rightarrow> string list" where
  "split_on sep s = split_from sep [] s"

text \<open>
  \<^verbatim>\<open>s.split(sep, 1)[1]\<close>: what follows the first separator; the index raises
  \<^verbatim>\<open>IndexError\<close> when \<open>s\<close> has no separator.
\<close>

datatype py_error = IndexError | KeyError

fun split1_second :: "char \<Rightarrow> string \<Rightarrow> py_error + string" where
  "split1_second sep [] = Inl IndexError"
| "split1_second sep (c # cs) = (if c = sep then Inr cs else split1_second sep cs)"

text \<open>\<^verbatim>\<open>s.strip(chars)\<close> and \<^verbatim>\<open>s.strip()\<close>\<close>

definition strip_where :: "(char \<Rightarrow> bool) \<Rightarrow> string \<Rightarrow> string" where
  "strip_where p s = rev (dropWhile p (rev (dropWhile p s)))"

definition strip :: "string \<Rightarrow> string" where
  "strip s = strip_where is_space s"

definition strip_chars :: "string \<Rightarrow> string \<Rightarrow> string" where
  "strip_chars chars s = strip_where (\<lambda>c. c \<in> set chars) s"

text \<open>\<^verbatim>\<open>text.split()\<close>: the maximal runs of non-blank characters.\<close>

fun split_ws_from :: "string \<Rightarrow> string \<Rightarrow> string list" where
  "split_ws_from cur [] = (if cur = [] then [] else [cur])"
| "split_ws_from cur (c # cs) =
     (if is_space c then (if cur = [] then split_ws_from [] cs else cur # split_ws_from [] cs)
      else split_ws_from (cur @ [c]) cs)"

definition split_ws :: "string \<Rightarrow> string list" where
  "split_ws text = split_ws_from [] text"

text \<open>
  \<^verbatim>\<open>w.istitle()\<close>: an uppercase letter only after an uncased character (or at the
  start), a lowercase letter only after a cased one, and at least one cased character.
\<close>

definition is_upper :: "char \<Rightarrow> bool" where
  "is_upper c \<longleftrightarrow> c \<in> set upper_letters"

definition is_lower :: "char \<Rightarrow> bool" where
  "is_lower c \<longleftrightarrow> c \<in> set (lower_letters @ other_lower_letters)"

fun istitle_from :: "bool \<Rightarrow> bool \<Rightarrow> string \<Rightarrow> bool" where
  "istitle_from previous_is_cased cased [] = cased"
| "istitle_from previous_is_cased cased (c # cs) =
     (if is_upper c then (if previous_is_cased then False else istitle_from True True cs)
      else if is_lower c then (if previous_is_cased then istitle_from True True cs else False)
      else istitle_from False cased cs)"

definition istitle :: "string \<Rightarrow> bool" where
  "istitle w = istitle_from False False w"

section \<open>Python dicts and sets\<close>

text \<open>
  A dict is an association list in insertion order with one pair per key:
  \<^verbatim>\<open>d[k] = v\<close> is \<^const>\<open>AList.update\<close> (in place for a key already there, at the
  end for a new one), \<^verbatim>\<open>d.pop(k, None)\<close> is \<^const>\<open>AList.delete\<close>,
  \<^verbatim>\<open>d.get(k)\<close> is \<^const>\<open>map_of\<close>. A key that may be absent from a record-like
  dict is an \<^typ>\<open>'a option\<close> field, and \<^verbatim>\<open>d.get(key, default)\<close> reads it with
  \<open>get_default\<close>.
\<close>

definition get_default :: "'a option \<Rightarrow> 'a \<Rightarrow> 'a" where
  "get_default field dflt = (case field of None \<Rightarrow> dflt | Some v \<Rightarrow> v)"

text \<open>
  A Python set is kept as a list without repetitions. The order in which a set of
  strings is iterated follows the string hashes, which change from one interpreter
  run to the next; it is a parameter \<open>iter\<close> of every function that turns a set
  into a list, and \<open>iteration_order iter\<close> says that \<open>iter\<close> only reorders.
\<close>

definition set_add :: "'a \<Rightarrow> 'a list \<Rightarrow> 'a list" where
  "set_add x s = (if x \<in> set s then s else s @ [x])"

definition py_set :: "'a list \<Rightarrow> 'a list" where
  "py_set xs = remdups xs"

definition set_minus :: "'a list \<Rightarrow> 'a list \<Rightarrow> 'a list" where
  "set_minus a b = filter (\<lambda>x. x \<notin> set b) a"

definition iteration_order :: "(string list \<Rightarrow> string list) \<Rightarrow> bool" where
  "iteration_order iter \<longleftrightarrow> (\<forall>s. distinct s \<longrightarrow> distinct (iter s) \<and> set (iter s) = set s)"

section \<open>The persisted document\<close>

text \<open>
  The records the program keeps in \<^verbatim>\<open>data.json\<close>. A survey is the dict the Admin
  handler writes; \<^verbatim>\<open>skills\<close> is read with \<^verbatim>\<open>survey.get("skills", [])\<close>. Of a
  response, the dashboard reads \<^verbatim>\<open>skills_selected\<close> and \<^verbatim>\<open>skill_ratings\<close>, both
  with \<^verbatim>\<open>get\<close> and a default; its other keys (name, answers, comments, timestamp)
  are read by no function modelled here and are left out. The document is the
  top-level dict: each of its three keys may be missing. A file that parses is taken to
  hold a JSON object whose three sections, when present, have these shapes.
\<close>

record survey =
  survey_id :: string
  process :: string
  process_id :: "int option"
  skills :: "string list option"
  questions :: "string list"
  creator :: string

record response =
  respondent_email :: string
  skills_selected :: "string list option"
  skill_ratings :: "(string \<times> string) list option"

record document =
  surveys :: "(string \<times> survey) list option"
  responses :: "(string \<times> response list) list option"
  assignments :: "(string \<times> string list) list option"

text \<open>The entry of a top-level key for a survey id: none when the key or the id is missing.\<close>

definition entry :: "(string \<times> 'a) list option \<Rightarrow> string \<Rightarrow> 'a option" where
  "entry section sid = (case section of None \<Rightarrow> None | Some m \<Rightarrow> map_of m sid)"

text \<open>The empty dict \<^verbatim>\<open>{}\<close> as a document.\<close>

definition empty_dict :: document where
  "empty_dict = \<lparr>surveys = None, responses = None, assignments = None\<rparr>"

text \<open>
  The backing file: missing, present but rejected by \<^verbatim>\<open>json.load\<close>, or holding a
  document. The store also counts the calls of \<^verbatim>\<open>save_datafile\<close>.
\<close>

datatype datafile = NoFile | Unparsable | Stored document

record store =
  data_file :: datafile
  saves :: nat

definition load_datafile :: "store \<Rightarrow> document" where
  "load_datafile st =
     (case data_file st of
        NoFile \<Rightarrow> empty_dict
      | Unparsable \<Rightarrow> empty_dict
      | Stored d \<Rightarrow> d)"

definition save_datafile :: "document \<Rightarrow> store \<Rightarrow> store" where
  "save_datafile payload st = st\<lparr>data_file := Stored payload, saves := saves st + 1\<rparr>"

definition ensure_data_structure :: "store \<Rightarrow> document \<times> store" where
  "ensure_data_structure st =
     (let d = load_datafile st;
          changed = False;
          (d, changed) = (if surveys d = None then (d\<lparr>surveys := Some []\<rparr>, True) else (d, changed));
          (d, changed) = (if responses d = None then (d\<lparr>responses := Some []\<rparr>, True) else (d, changed));
          (d, changed) = (if assignments d = None then (d\<lparr>assignments := Some []\<rparr>, True) else (d, changed))
      in (d, if changed then save_datafile d st else st))"

section \<open>Skill suggestions\<close>

text \<open>
  \<^verbatim>\<open>suggest_skills_for_process\<close>: the dict literal \<^verbatim>\<open>mapping\<close>, in the order it
  is written (the order \<^verbatim>\<open>mapping.items()\<close> yields), and the loop that returns at
  the first key found in the process name.
\<close>

definition mapping :: "(string \<times> string list) list" where
  "mapping =
    [(''Order to Cash'', [''Order Processing'', ''Invoicing'', ''Accounts Receivable'', ''SAP'']),
     (''Procure to Pay'', [''Procurement'', ''Supplier Management'', ''PO Processing'', ''SAP'']),
     (''Hire to Retire'', [''Recruitment'', ''Payroll'', ''Onboarding'', ''Employee Relations'']),
     (''Record to Report'', [''Financial Reporting'', ''Reconcilations'', ''Excel'', ''Accounting'']),
     (''Incident Management'', [''Incident Triage'', ''Troubleshooting'', ''Ticketing Systems'']),
     (''Inventory Management'', [''Stock Control'', ''Cycle Count'', ''ERP'', ''Logistics'']),
     (''Data Migration'', [''ETL'', ''Data Mapping'', ''SQL'', ''Python'']),
     (''Network Security'', [''Firewalls'', ''IDS/IPS'', ''Vulnerability Management'']),
     (''Event Management'', [''Venue Management'', ''Vendor Coordination'', ''Logistics''])]"

definition generic_skills :: "string list" where
  "generic_skills = [''Communication'', ''Process Knowledge'', ''Documentation'', ''Tools'']"

fun suggest_loop :: "(string \<times> string list) list \<Rightarrow> string \<Rightarrow> string list" where
  "suggest_loop [] process_name = generic_skills"
| "suggest_loop ((k, v) # items) process_name =
     (if str_in (lower k) (lower process_name) then v else suggest_loop items process_name)"

definition suggest_skills_for_process :: "string \<Rightarrow> string list" where
  "suggest_skills_for_process process_name = suggest_loop mapping process_name"

section \<open>Admin: creating and deleting surveys\<close>

text \<open>
  \<^verbatim>\<open>generate_survey_id\<close> is \<^verbatim>\<open>str(uuid.uuid4())[:8]\<close>. The random UUID comes from
  the environment: \<open>uuid4\<close> is its text.
\<close>

definition generate_survey_id :: "string \<Rightarrow> string" where
  "generate_survey_id uuid4 = take 8 uuid4"

text \<open>\<^verbatim>\<open>[s.strip() for s in parts.split(",") if s.strip()]\<close>\<close>

definition comma_list :: "string \<Rightarrow> string list" where
  "comma_list parts = map strip (filter (\<lambda>s. strip s \<noteq> []) (split_on CHR '','' parts))"

text \<open>
  The handler of the button \<^verbatim>\<open>Create & Save Survey\<close>. \<open>proc_choice\<close> is the selected
  process name (none when the select box has no option), \<open>row_id\<close> the
  \<^verbatim>\<open>ProcessID\<close> of its catalog row when there is one. The handler either shows an
  error and leaves the file alone, or writes the survey and its assignment.
\<close>

datatype outcome = Error string | Success string

definition create_survey ::
  "string \<Rightarrow> string option \<Rightarrow> int option \<Rightarrow> string list \<Rightarrow> string list \<Rightarrow> string list \<Rightarrow> store
     \<Rightarrow> outcome \<times> store" where
  "create_survey uuid4 proc_choice row_id skills_in questions_in selected_emails st =
     (case proc_choice of
        None \<Rightarrow> (Error ''Please select a process.'', st)
      | Some name \<Rightarrow>
          if name = [] then (Error ''Please select a process.'', st)
          else if skills_in = [] then (Error ''Please provide at least one skill.'', st)
          else
            let sid = generate_survey_id uuid4;
                survey = \<lparr>survey_id = sid, process = name, process_id = row_id,
                          skills = Some skills_in, questions = questions_in, creator = ''admin''\<rparr>;
                data = load_datafile st;
                data = data\<lparr>surveys := Some (AList.update sid survey (get_default (surveys data) []))\<rparr>;
                data = data\<lparr>assignments :=
                         Some (AList.update sid selected_emails (get_default (assignments data) []))\<rparr>
            in (Success sid, save_datafile data st))"

text \<open>
  The handler of the button \<^verbatim>\<open>Delete sid\<close>: \<^verbatim>\<open>d["surveys"]\<close> raises
  \<^verbatim>\<open>KeyError\<close> when the key is missing, the two other keys are read with
  \<^verbatim>\<open>d.get(key, {})\<close>, so that a missing key stays missing.
\<close>

definition delete_survey :: "string \<Rightarrow> store \<Rightarrow> py_error + store" where
  "delete_survey sid st =
     (let d = load_datafile st in
      case surveys d of
        None \<Rightarrow> Inl KeyError
      | Some m \<Rightarrow>
          let d = d\<lparr>surveys := Some (AList.delete sid m)\<rparr>;
              d = d\<lparr>assignments := map_option (AList.delete sid) (assignments d)\<rparr>;
              d = d\<lparr>responses := map_option (AList.delete sid) (responses d)\<rparr>
          in Inr (save_datafile d st))"

section \<open>Skill extraction and resume matching\<close>

text \<open>
  \<^verbatim>\<open>extract_skills_from_text\<close>. The loop over the lines returns at the first line
  whose lower-cased text contains \<^verbatim>\<open>skills:\<close> (\<open>scan_lines\<close> is \<open>None\<close> when the
  loop ends without returning). The fallback collects the title-cased words in a set
  and returns the first eight in the set's iteration order.
\<close>

fun scan_lines :: "string list \<Rightarrow> (py_error + string list) option" where
  "scan_lines [] = None"
| "scan_lines (ln # lines) =
     (if str_in ''skills:'' (lower ln)
      then Some (case split1_second CHR '':'' ln of
                   Inl e \<Rightarrow> Inl e
                 | Inr parts \<Rightarrow> Inr (comma_list parts))
      else scan_lines lines)"

fun collect_tokens :: "string list \<Rightarrow> string list \<Rightarrow> string list" where
  "collect_tokens [] tokens = tokens"
| "collect_tokens (w # ws) tokens =
     collect_tokens ws
       (if istitle w \<and> length w > 2 \<and> length w < 20
        then set_add (strip_chars '',.()'' (strip w)) tokens else tokens)"

definition extract_skills_from_text ::
  "(string list \<Rightarrow> string list) \<Rightarrow> string \<Rightarrow> py_error + string list" where
  "extract_skills_from_text iter text =
     (case scan_lines (splitlines text) of
        Some result \<Rightarrow> result
      | None \<Rightarrow> Inr (take 8 (iter (collect_tokens (split_ws text) []))))"

text \<open>
  \<^verbatim>\<open>match_resumes_for_skill\<close>: \<open>resumes\<close> is the dict from file name to text, in
  the order of \<^verbatim>\<open>resumes.items()\<close>.
\<close>

fun match_loop :: "string \<Rightarrow> (string \<times> string) list \<Rightarrow> string list \<Rightarrow> string list" where
  "match_loop skill_lower [] matches = matches"
| "match_loop skill_lower ((fname, text) # items) matches =
     match_loop skill_lower items
       (if str_in skill_lower (lower text) then matches @ [fname] else matches)"

definition match_resumes_for_skill :: "string \<Rightarrow> (string \<times> string) list \<Rightarrow> string list" where
  "match_resumes_for_skill skill resumes = match_loop (lower skill) resumes []"

section \<open>Dashboard\<close>

text \<open>
  Skill aggregation. \<^verbatim>\<open>skill_map\<close> is a dict from skill to the list of ratings
  recorded for it; \<^verbatim>\<open>skill_map.setdefault(skl, []).append(rating)\<close> is
  \<open>record_rating\<close>.
\<close>

type_synonym skill_map = "(string \<times> string list) list"

definition rating_of :: "response \<Rightarrow> string \<Rightarrow> string" where
  "rating_of r skl = get_default (map_of (get_default (skill_ratings r) []) skl) ''Low''"

definition record_rating :: "string \<Rightarrow> string \<Rightarrow> skill_map \<Rightarrow> skill_map" where
  "record_rating skl rating sm = AList.update skl (get_default (map_of sm skl) [] @ [rating]) sm"

fun selected_loop :: "response \<Rightarrow> string list \<Rightarrow> skill_map \<Rightarrow> skill_map" where
  "selected_loop r [] sm = sm"
| "selected_loop r (skl # rest) sm = selected_loop r rest (record_rating skl (rating_of r skl) sm)"

fun responses_loop :: "response list \<Rightarrow> skill_map \<Rightarrow> skill_map" where
  "responses_loop [] sm = sm"
| "responses_loop (r # resp_list) sm =
     responses_loop resp_list (selected_loop r (get_default (skills_selected r) []) sm)"

definition aggregate :: "response list \<Rightarrow> skill_map" where
  "aggregate resp_list = responses_loop resp_list []"

record row =
  Skill :: string
  High :: nat
  Medium :: nat
  Low :: nat
  Total :: nat

definition make_row :: "string \<times> string list \<Rightarrow> row" where
  "make_row item =
     (case item of (skl, ratings) \<Rightarrow>
        \<lparr>Skill = skl, High = count_list ratings ''High'', Medium = count_list ratings ''Medium'',
         Low = count_list ratings ''Low'', Total = length ratings\<rparr>)"

definition table_rows :: "skill_map \<Rightarrow> row list" where
  "table_rows sm = (if sm \<noteq> [] then map make_row sm else [])"

text \<open>
  Gap analysis: \<^verbatim>\<open>required - available\<close>, shown as \<^verbatim>\<open>list(missing)\<close> when it is
  not empty and as the text \<^verbatim>\<open>None\<close> otherwise.
\<close>

definition missing_skills :: "survey \<Rightarrow> skill_map \<Rightarrow> string list" where
  "missing_skills survey sm =
     (let required = py_set (map lower (get_default (skills survey) []));
          available = py_set (map lower (map fst sm))
      in set_minus required available)"

datatype shown = Listed "string list" | NoneText

definition gap_analysis :: "(string list \<Rightarrow> string list) \<Rightarrow> survey \<Rightarrow> skill_map \<Rightarrow> shown" where
  "gap_analysis iter survey sm =
     (let missing = missing_skills survey sm
      in if missing \<noteq> [] then Listed (iter missing) else NoneText)"

text \<open>
  Resume matching for one missing skill \<open>ms\<close>: the direct matches when there are
  some, else the fallback over the extracted tokens of every resume.
\<close>

datatype matching = Matches "string list" | FallbackMatches "string list" | NoMatches

fun fallback_loop ::
  "(string list \<Rightarrow> string list) \<Rightarrow> string \<Rightarrow> (string \<times> string) list \<Rightarrow> string list
     \<Rightarrow> py_error + string list" where
  "fallback_loop iter ms [] suggestions = Inr suggestions"
| "fallback_loop iter ms ((fname, txt) # items) suggestions =
     (case extract_skills_from_text iter txt of
        Inl e \<Rightarrow> Inl e
      | Inr tokens \<Rightarrow>
          fallback_loop iter ms items
            (if ms \<in> set (map lower tokens) then suggestions @ [fname] else suggestions))"

definition resume_matching ::
  "(string list \<Rightarrow> string list) \<Rightarrow> string \<Rightarrow> (string \<times> string) list \<Rightarrow> py_error + matching" where
  "resume_matching iter ms resume_texts =
     (let matches = match_resumes_for_skill ms resume_texts
      in if matches \<noteq> [] then Inr (Matches matches)
         else (case fallback_loop iter ms resume_texts [] of
                 Inl e \<Rightarrow> Inl e
               | Inr suggestions \<Rightarrow>
                   Inr (if suggestions \<noteq> [] then FallbackMatches suggestions else NoMatches)))"

section \<open>Notions of the specification\<close>

text \<open>
  The specification's words, stated apart from the code: \<open>sub\<close> is contained in \<open>s\<close>
  as a substring when case is ignored.
\<close>

definition contains_ci :: "string \<Rightarrow> string \<Rightarrow> bool" where
  "contains_ci s sub \<longleftrightarrow> (\<exists>pre post. lower s = pre @ lower sub @ post)"

text \<open>A document lacks one of its three top-level keys.\<close>

definition missing_keys :: "document \<Rightarrow> bool" where
  "missing_keys d \<longleftrightarrow> surveys d = None \<or> responses d = None \<or> assignments d = None"

text \<open>
  The ratings the specification has recorded under a skill \<open>s\<close>: for every response in
  turn, and every occurrence of \<open>s\<close> in its selected skills, the entry of the
  response's rating map for \<open>s\<close>, or \<^verbatim>\<open>Low\<close> when the map has none.
\<close>

definition recorded_ratings :: "response list \<Rightarrow> string \<Rightarrow> string list" where
  "recorded_ratings resp_list s =
     concat (map (\<lambda>r. map (\<lambda>skl. case map_of (get_default (skill_ratings r) []) skl of
                                    None \<Rightarrow> ''Low'' | Some rating \<Rightarrow> rating)
                          (filter (\<lambda>skl. skl = s) (get_default (skills_selected r) [])))
                 resp_list)"

text \<open>The list a skill map holds for a skill, empty when the skill is not a key.\<close>

definition ratings_for :: "skill_map \<Rightarrow> string \<Rightarrow> string list" where
  "ratings_for sm s = get_default (map_of sm s) []"

text \<open>The pieces of a split, put together again with the separator between them.\<close>

definition join :: "char \<Rightarrow> string list \<Rightarrow> string" where
  "join sep pieces = (case pieces of [] \<Rightarrow> [] | p # ps \<Rightarrow> p @ concat (map (\<lambda>q. sep # q) ps))"

text \<open>The tokens extracted from a resume (the extraction never raises, see \<open>extract_total\<close>).\<close>

definition extracted_tokens :: "(string list \<Rightarrow> string list) \<Rightarrow> string \<Rightarrow> string list" where
  "extracted_tokens iter txt = (case extract_skills_from_text iter txt of Inl e \<Rightarrow> [] | Inr tokens \<Rightarrow> tokens)"

section \<open>Example data\<close>

text \<open>A store that holds one survey with one assignee, and a response that lists a skill twice.\<close>

definition old_survey :: survey where
  "old_survey = \<lparr>survey_id = ''deadbeef'', process = ''Procure to Pay'', process_id = Some 2,
                  skills = Some [''Procurement''], questions = [''Any blockers?''], creator = ''admin''\<rparr>"

definition old_store :: store where
  "old_store = \<lparr>data_file = Stored \<lparr>surveys = Some [(''deadbeef'', old_survey)], responses = Some [],
                   assignments = Some [(''deadbeef'', [''a@example.com''])]\<rparr>, saves = 1\<rparr>"

definition twice_selected :: "response list" where
  "twice_selected = [\<lparr>respondent_email = ''a@example.com'', skills_selected = Some [''SQL'', ''SQL''],
                       skill_ratings = Some [(''SQL'', ''High'')]\<rparr>]"

text \<open>Two responses: one selects a skill it does not rate, one rates a skill \<^verbatim>\<open>Expert\<close>.\<close>

definition unrated :: "response list" where
  "unrated = [\<lparr>respondent_email = ''a@example.com'', skills_selected = Some [''SQL'', ''X''],
                 skill_ratings = Some [(''SQL'', ''High'')]\<rparr>,
              \<lparr>respondent_email = ''b@example.com'', skills_selected = Some [''SQL''],
                 skill_ratings = Some [(''SQL'', ''Expert'')]\<rparr>]"

text \<open>A survey with three skills.\<close>

definition migration_survey :: survey where
  "migration_survey = \<lparr>survey_id = ''0a1b2c3d'', process = ''Data Migration'', process_id = None,
                  skills = Some [''SQL'', ''ETL'', ''Python''], questions = [], creator = ''admin''\<rparr>"

text \<open>A resume of three lines, two of which mention skills.\<close>

definition resume_text :: string where
  "resume_text = ''Jane Roe, Analyst'' @ [CHR 0x0A] @ ''Key Skills: Excel,  SAP ,,Communication ''
                  @ [CHR 0x0D, CHR 0x0A] @ ''Other skills: Golf''"

text \<open>Two resumes; only the second mentions SQL.\<close>

definition two_resumes :: "(string \<times> string) list" where
  "two_resumes = [(''jane.txt'', resume_text), (''joe.txt'', ''Joe has SQL and Python skills'')]"

section \<open>Properties of the string primitives\<close>

lemma str_in_iff: "str_in sub s \<longleftrightarrow> (\<exists>pre post. s = pre @ sub @ post)"
proof (induction s)
  case Nil
  then show ?case by auto
next
  case (Cons c cs)
  show ?case
  proof
    assume "str_in sub (c # cs)"
    then consider "prefix sub (c # cs)" | "str_in sub cs" by auto
    then show "\<exists>pre post. c # cs = pre @ sub @ post"
    proof cases
      case 1
      then obtain post where "c # cs = sub @ post" by (auto simp: prefix_def)
      then have "c # cs = [] @ sub @ post" by simp
      then show ?thesis by blast
    next
      case 2
      with Cons.IH obtain pre post where "cs = pre @ sub @ post" by blast
      then have "c # cs = (c # pre) @ sub @ post" by simp
      then show ?thesis by blast
    qed
  next
    assume "\<exists>pre post. c # cs = pre @ sub @ post"
    then obtain pre post where e: "c # cs = pre @ sub @ post" by blast
    show "str_in sub (c # cs)"
    proof (cases pre)
      case Nil
      with e have "prefix sub (c # cs)" by (simp add: prefix_def)
      then show ?thesis by simp
    next
      case (Cons p ps)
      with e have "cs = ps @ sub @ post" by simp
      with Cons.IH have "str_in sub cs" by blast
      then show ?thesis by simp
    qed
  qed
qed

lemma contains_ci_code: "contains_ci s sub \<longleftrightarrow> str_in (lower sub) (lower s)"
  by (simp add: contains_ci_def str_in_iff)

section \<open>Skill suggestions: the first matching key wins\<close>

lemma suggest_loop_find:
  "suggest_loop items pn =
     (case find (\<lambda>item. contains_ci pn (fst item)) items of
        None \<Rightarrow> generic_skills
      | Some item \<Rightarrow> snd item)"
  by (induction items) (auto simp: contains_ci_code)

text \<open>
  C7. For every process name, \<open>suggest_skills_for_process\<close> returns the skill list of
  the first entry of the table whose key is contained in the process name, case
  ignored, and the generic list when no key is; the name \<^verbatim>\<open>Order to Cash\<close> yields
  the four skills of its entry.
\<close>

theorem suggest_first_match:
  "suggest_skills_for_process process_name =
     (case find (\<lambda>item. contains_ci process_name (fst item)) mapping of
        None \<Rightarrow> [''Communication'', ''Process Knowledge'', ''Documentation'', ''Tools'']
      | Some item \<Rightarrow> snd item)
   \<and> suggest_skills_for_process ''Order to Cash'' =
       [''Order Processing'', ''Invoicing'', ''Accounts Receivable'', ''SAP'']"
proof
  show "suggest_skills_for_process process_name =
     (case find (\<lambda>item. contains_ci process_name (fst item)) mapping of
        None \<Rightarrow> [''Communication'', ''Process Knowledge'', ''Documentation'', ''Tools'']
      | Some item \<Rightarrow> snd item)"
    unfolding suggest_skills_for_process_def suggest_loop_find generic_skills_def
    by (rule refl)
  show "suggest_skills_for_process ''Order to Cash'' =
       [''Order Processing'', ''Invoicing'', ''Accounts Receivable'', ''SAP'']"
    by code_simp
qed

theorem suggest_first_match_witness:
  "suggest_skills_for_process ''IT network security (EU)'' =
     [''Firewalls'', ''IDS/IPS'', ''Vulnerability Management'']
   \<and> find (\<lambda>item. contains_ci ''IT network security (EU)'' (fst item)) mapping
       = Some (''Network Security'', [''Firewalls'', ''IDS/IPS'', ''Vulnerability Management''])"
proof -
  have f: "find (\<lambda>item. contains_ci ''IT network security (EU)'' (fst item)) mapping
       = Some (''Network Security'', [''Firewalls'', ''IDS/IPS'', ''Vulnerability Management''])"
    unfolding contains_ci_code by code_simp
  from suggest_first_match [of "''IT network security (EU)''"] f show ?thesis by simp
qed

section \<open>Datastore\<close>

lemma ensure_document:
  "fst (ensure_data_structure st) =
     (load_datafile st)\<lparr>surveys := Some (get_default (surveys (load_datafile st)) []),
                         responses := Some (get_default (responses (load_datafile st)) []),
                         assignments := Some (get_default (assignments (load_datafile st)) [])\<rparr>"
  by (cases "surveys (load_datafile st)"; cases "responses (load_datafile st)";
      cases "assignments (load_datafile st)")
     (simp_all add: ensure_data_structure_def get_default_def Let_def)

lemma ensure_store:
  "snd (ensure_data_structure st) =
     (if missing_keys (load_datafile st)
      then save_datafile (fst (ensure_data_structure st)) st else st)"
  by (cases "surveys (load_datafile st)"; cases "responses (load_datafile st)";
      cases "assignments (load_datafile st)")
     (simp_all add: ensure_data_structure_def missing_keys_def Let_def)

lemma load_save: "load_datafile (save_datafile d st) = d"
  by (simp add: load_datafile_def save_datafile_def)

lemma ensure_well_formed:
  assumes "\<not> missing_keys (load_datafile st)"
  shows "ensure_data_structure st = (load_datafile st, st)"
proof -
  from assms obtain s r a where
    "surveys (load_datafile st) = Some s" "responses (load_datafile st) = Some r"
    "assignments (load_datafile st) = Some a"
    by (auto simp: missing_keys_def)
  then show ?thesis
    by (simp add: ensure_data_structure_def Let_def)
qed

lemma ensure_not_missing: "\<not> missing_keys (fst (ensure_data_structure st))"
  by (simp add: ensure_document missing_keys_def)

lemma load_after_ensure:
  "load_datafile (snd (ensure_data_structure st)) = fst (ensure_data_structure st)"
proof (cases "missing_keys (load_datafile st)")
  case True
  then show ?thesis by (simp add: ensure_store load_save)
next
  case False
  then show ?thesis by (simp add: ensure_well_formed)
qed

lemma ensure_data_structure_result:
  assumes "ensure_data_structure st = (d', st')"
  shows "surveys d' = Some (get_default (surveys (load_datafile st)) [])
       \<and> responses d' = Some (get_default (responses (load_datafile st)) [])
       \<and> assignments d' = Some (get_default (assignments (load_datafile st)) [])
       \<and> (if missing_keys (load_datafile st)
          then data_file st' = Stored d' \<and> saves st' = saves st + 1
          else d' = load_datafile st \<and> st' = st)
       \<and> ensure_data_structure st' = (d', st')"
proof -
  from assms have d': "d' = fst (ensure_data_structure st)"
    and st': "st' = snd (ensure_data_structure st)" by simp_all
  have 1: "surveys d' = Some (get_default (surveys (load_datafile st)) [])
       \<and> responses d' = Some (get_default (responses (load_datafile st)) [])
       \<and> assignments d' = Some (get_default (assignments (load_datafile st)) [])"
    by (simp add: d' ensure_document)
  have 2: "if missing_keys (load_datafile st)
          then data_file st' = Stored d' \<and> saves st' = saves st + 1
          else d' = load_datafile st \<and> st' = st"
  proof (cases "missing_keys (load_datafile st)")
    case True
    then have "st' = save_datafile d' st" by (simp add: st' d' ensure_store)
    with True show ?thesis by (simp add: save_datafile_def)
  next
    case False
    from ensure_well_formed [OF False] assms have "d' = load_datafile st" "st' = st"
      by simp_all
    with False show ?thesis by simp
  qed
  have "load_datafile st' = d'" by (simp add: st' d' load_after_ensure)
  moreover have "\<not> missing_keys d'" by (simp add: d' ensure_not_missing)
  ultimately have 3: "ensure_data_structure st' = (d', st')"
    by (simp add: ensure_well_formed)
  from 1 2 3 show ?thesis by simp
qed

text \<open>
  C1. \<open>ensure_data_structure\<close> returns a document with all three top-level keys: a
  key that was missing is bound to the empty map, a key that was present keeps its
  value. When a key was missing the result is saved, by one call of \<open>save_datafile\<close>;
  when none was, the document is returned as loaded and nothing is written. Applied
  again to the store it leaves, it returns the same document and the same store.
\<close>

theorem ensure_data_structure_completes_once:
  assumes "ensure_data_structure st = (d', st')"
  shows "surveys d' = (if surveys (load_datafile st) = None then Some [] else surveys (load_datafile st))
       \<and> responses d' = (if responses (load_datafile st) = None then Some [] else responses (load_datafile st))
       \<and> assignments d' = (if assignments (load_datafile st) = None then Some [] else assignments (load_datafile st))
       \<and> surveys d' \<noteq> None \<and> responses d' \<noteq> None \<and> assignments d' \<noteq> None
       \<and> (if missing_keys (load_datafile st)
          then data_file st' = Stored d' \<and> saves st' = saves st + 1
          else d' = load_datafile st \<and> st' = st)
       \<and> ensure_data_structure st' = (d', st')"
  using ensure_data_structure_result [OF assms]
  by (auto simp: get_default_def split: option.splits)

theorem ensure_data_structure_completes_once_witness:
  "ensure_data_structure
      \<lparr>data_file = Stored \<lparr>surveys = Some [(''deadbeef'', old_survey)], responses = None,
                            assignments = None\<rparr>, saves = 3\<rparr>
     = (\<lparr>surveys = Some [(''deadbeef'', old_survey)], responses = Some [], assignments = Some []\<rparr>,
        \<lparr>data_file = Stored \<lparr>surveys = Some [(''deadbeef'', old_survey)], responses = Some [],
                              assignments = Some []\<rparr>, saves = 4\<rparr>)
   \<and> ensure_data_structure
        \<lparr>data_file = Stored \<lparr>surveys = Some [(''deadbeef'', old_survey)], responses = Some [],
                              assignments = Some []\<rparr>, saves = 4\<rparr>
     = (\<lparr>surveys = Some [(''deadbeef'', old_survey)], responses = Some [], assignments = Some []\<rparr>,
        \<lparr>data_file = Stored \<lparr>surveys = Some [(''deadbeef'', old_survey)], responses = Some [],
                              assignments = Some []\<rparr>, saves = 4\<rparr>)"
proof -
  have h: "ensure_data_structure
      \<lparr>data_file = Stored \<lparr>surveys = Some [(''deadbeef'', old_survey)], responses = None,
                            assignments = None\<rparr>, saves = 3\<rparr>
     = (\<lparr>surveys = Some [(''deadbeef'', old_survey)], responses = Some [], assignments = Some []\<rparr>,
        \<lparr>data_file = Stored \<lparr>surveys = Some [(''deadbeef'', old_survey)], responses = Some [],
                              assignments = Some []\<rparr>, saves = 4\<rparr>)"
    by (simp add: ensure_data_structure_def load_datafile_def save_datafile_def Let_def)
  from ensure_data_structure_completes_once [OF h] h show ?thesis by simp
qed

text \<open>
  C2. \<open>load_datafile\<close> returns the stored document when the file parses. With no file,
  or a file that does not parse, it does not return a document with three empty maps.
\<close>

theorem load_datafile_structurally_complete_counterexample:
  "load_datafile \<lparr>data_file = NoFile, saves = 0\<rparr>
     \<noteq> \<lparr>surveys = Some [], responses = Some [], assignments = Some []\<rparr>
   \<and> load_datafile \<lparr>data_file = Unparsable, saves = 0\<rparr>
     \<noteq> \<lparr>surveys = Some [], responses = Some [], assignments = Some []\<rparr>"
  by (simp add: load_datafile_def empty_dict_def)

text \<open>
  C2, as the code has it: \<open>load_datafile\<close> returns the stored document when the file
  parses, and otherwise the empty dict, which has none of the three keys; it is
  \<open>ensure_data_structure\<close> that then binds each of them to an empty map.
\<close>

theorem load_datafile_empty_dict:
  "(case data_file st of
      Stored d \<Rightarrow> load_datafile st = d
    | _ \<Rightarrow> load_datafile st = \<lparr>surveys = None, responses = None, assignments = None\<rparr>
          \<and> fst (ensure_data_structure st)
              = \<lparr>surveys = Some [], responses = Some [], assignments = Some []\<rparr>)"
  by (cases "data_file st")
     (simp_all add: load_datafile_def empty_dict_def ensure_data_structure_def Let_def)

theorem load_datafile_empty_dict_witness:
  "load_datafile \<lparr>data_file = Unparsable, saves = 2\<rparr>
     = \<lparr>surveys = None, responses = None, assignments = None\<rparr>
   \<and> fst (ensure_data_structure \<lparr>data_file = Unparsable, saves = 2\<rparr>)
     = \<lparr>surveys = Some [], responses = Some [], assignments = Some []\<rparr>
   \<and> load_datafile old_store
     = \<lparr>surveys = Some [(''deadbeef'', old_survey)], responses = Some [],
        assignments = Some [(''deadbeef'', [''a@example.com''])]\<rparr>"
  using load_datafile_empty_dict [of "\<lparr>data_file = Unparsable, saves = 2\<rparr>"]
    load_datafile_empty_dict [of old_store]
  by (simp add: old_store_def)

section \<open>Admin handlers\<close>

lemma entry_delete:
  "entry (map_option (AList.delete sid) sec) k = (if k = sid then None else entry sec k)"
  by (cases sec) (simp_all add: entry_def delete_conv')

text \<open>
  C9. Deleting the survey \<open>sid\<close> from a document that has its \<^verbatim>\<open>surveys\<close> key
  succeeds, and in the document it saves none of the three top-level maps has an entry
  for \<open>sid\<close>, while the entry of every other survey id is, in each of the three maps,
  what it was.
\<close>

theorem delete_survey_frame:
  assumes "surveys (load_datafile st) = Some m"
  shows "\<exists>st'. delete_survey sid st = Inr st'
          \<and> entry (surveys (load_datafile st')) sid = None
          \<and> entry (responses (load_datafile st')) sid = None
          \<and> entry (assignments (load_datafile st')) sid = None
          \<and> (\<forall>k. k \<noteq> sid \<longrightarrow>
                entry (surveys (load_datafile st')) k = entry (surveys (load_datafile st)) k
              \<and> entry (responses (load_datafile st')) k = entry (responses (load_datafile st)) k
              \<and> entry (assignments (load_datafile st')) k = entry (assignments (load_datafile st)) k)"
proof -
  define d' where "d' = (load_datafile st)\<lparr>surveys := map_option (AList.delete sid) (surveys (load_datafile st)),
      assignments := map_option (AList.delete sid) (assignments (load_datafile st)),
      responses := map_option (AList.delete sid) (responses (load_datafile st))\<rparr>"
  have del: "delete_survey sid st = Inr (save_datafile d' st)"
    using assms by (simp add: delete_survey_def d'_def Let_def)
  have ld: "load_datafile (save_datafile d' st) = d'" by (rule load_save)
  have "entry (surveys d') k = (if k = sid then None else entry (surveys (load_datafile st)) k)" for k
    by (simp add: d'_def entry_delete)
  moreover have "entry (responses d') k = (if k = sid then None else entry (responses (load_datafile st)) k)" for k
    by (simp add: d'_def entry_delete)
  moreover have "entry (assignments d') k = (if k = sid then None else entry (assignments (load_datafile st)) k)" for k
    by (simp add: d'_def entry_delete)
  ultimately show ?thesis using del ld by simp
qed

theorem delete_survey_frame_witness:
  "surveys (load_datafile
      \<lparr>data_file = Stored \<lparr>surveys = Some [(''deadbeef'', old_survey), (''0a1b2c3d'', old_survey)],
          responses = None, assignments = Some [(''deadbeef'', [''a@example.com'']), (''0a1b2c3d'', [])]\<rparr>,
       saves = 1\<rparr>) = Some [(''deadbeef'', old_survey), (''0a1b2c3d'', old_survey)]
   \<and> delete_survey ''deadbeef''
      \<lparr>data_file = Stored \<lparr>surveys = Some [(''deadbeef'', old_survey), (''0a1b2c3d'', old_survey)],
          responses = None, assignments = Some [(''deadbeef'', [''a@example.com'']), (''0a1b2c3d'', [])]\<rparr>,
       saves = 1\<rparr>
     = Inr \<lparr>data_file = Stored \<lparr>surveys = Some [(''0a1b2c3d'', old_survey)],
          responses = None, assignments = Some [(''0a1b2c3d'', [])]\<rparr>, saves = 2\<rparr>
   \<and> (\<exists>st'. delete_survey ''deadbeef''
      \<lparr>data_file = Stored \<lparr>surveys = Some [(''deadbeef'', old_survey), (''0a1b2c3d'', old_survey)],
          responses = None, assignments = Some [(''deadbeef'', [''a@example.com'']), (''0a1b2c3d'', [])]\<rparr>,
       saves = 1\<rparr> = Inr st'
       \<and> entry (surveys (load_datafile st')) ''deadbeef'' = None
       \<and> entry (surveys (load_datafile st')) ''0a1b2c3d'' = Some old_survey)"
proof -
  let ?st = "\<lparr>data_file = Stored \<lparr>surveys = Some [(''deadbeef'', old_survey), (''0a1b2c3d'', old_survey)],
          responses = None, assignments = Some [(''deadbeef'', [''a@example.com'']), (''0a1b2c3d'', [])]\<rparr>,
       saves = 1\<rparr>"
  have h: "surveys (load_datafile ?st) = Some [(''deadbeef'', old_survey), (''0a1b2c3d'', old_survey)]"
    by (simp add: load_datafile_def)
  have d: "delete_survey ''deadbeef'' ?st
     = Inr \<lparr>data_file = Stored \<lparr>surveys = Some [(''0a1b2c3d'', old_survey)],
          responses = None, assignments = Some [(''0a1b2c3d'', [])]\<rparr>, saves = 2\<rparr>"
    by (simp add: delete_survey_def load_datafile_def save_datafile_def Let_def AList.delete_eq)
  have o: "entry (surveys (load_datafile ?st)) ''0a1b2c3d'' = Some old_survey"
    by (simp add: load_datafile_def entry_def)
  from delete_survey_frame [OF h, of "''deadbeef''"] obtain st' where
    s: "delete_survey ''deadbeef'' ?st = Inr st'"
      "entry (surveys (load_datafile st')) ''deadbeef'' = None"
      "\<forall>k. k \<noteq> ''deadbeef'' \<longrightarrow>
                entry (surveys (load_datafile st')) k = entry (surveys (load_datafile ?st)) k
              \<and> entry (responses (load_datafile st')) k = entry (responses (load_datafile ?st)) k
              \<and> entry (assignments (load_datafile st')) k = entry (assignments (load_datafile ?st)) k"
    by blast
  from s(3) have "entry (surveys (load_datafile st')) ''0a1b2c3d'' = entry (surveys (load_datafile ?st)) ''0a1b2c3d''"
    by simp
  with o s(1,2) have "\<exists>st'. delete_survey ''deadbeef'' ?st = Inr st'
       \<and> entry (surveys (load_datafile st')) ''deadbeef'' = None
       \<and> entry (surveys (load_datafile st')) ''0a1b2c3d'' = Some old_survey"
    by auto
  with h d show ?thesis by (intro conjI)
qed

lemma entry_update:
  "entry (Some (AList.update sid v (get_default sec []))) k = (if k = sid then Some v else entry sec k)"
  by (cases sec) (simp_all add: entry_def get_default_def update_conv')

text \<open>
  C8. Creating a survey does not compare the generated id with the ids in the file:
  when the first eight characters of the UUID are those of an existing survey id, the
  handler reports success and the existing survey and its assignment are replaced.
\<close>

theorem create_survey_unique_id_counterexample:
  "entry (surveys (load_datafile old_store)) ''deadbeef'' = Some old_survey
   \<and> fst (create_survey ''deadbeef-9c1e-4b7a-8f30-5a6d2e417c09'' (Some ''Order to Cash'') (Some 1)
            [''SAP''] [] [] old_store) = Success ''deadbeef''
   \<and> entry (surveys (load_datafile (snd (create_survey ''deadbeef-9c1e-4b7a-8f30-5a6d2e417c09''
            (Some ''Order to Cash'') (Some 1) [''SAP''] [] [] old_store)))) ''deadbeef''
       = Some \<lparr>survey_id = ''deadbeef'', process = ''Order to Cash'', process_id = Some 1,
                skills = Some [''SAP''], questions = [], creator = ''admin''\<rparr>
   \<and> entry (assignments (load_datafile (snd (create_survey ''deadbeef-9c1e-4b7a-8f30-5a6d2e417c09''
            (Some ''Order to Cash'') (Some 1) [''SAP''] [] [] old_store)))) ''deadbeef'' = Some []
   \<and> entry (surveys (load_datafile (snd (create_survey ''deadbeef-9c1e-4b7a-8f30-5a6d2e417c09''
            (Some ''Order to Cash'') (Some 1) [''SAP''] [] [] old_store)))) ''deadbeef''
       \<noteq> entry (surveys (load_datafile old_store)) ''deadbeef''"
  by (simp add: create_survey_def generate_survey_id_def load_datafile_def save_datafile_def
      old_store_def old_survey_def entry_def get_default_def Let_def)

text \<open>
  C8, as the code has it: with a process and at least one skill, the handler stores the
  new survey and its assignees under the first eight characters of the UUID, whatever
  the file holds; the entries of every other survey id, and all responses, are
  unchanged. So an existing survey is kept exactly when the generated id differs from
  its id.
\<close>

theorem create_survey_stores_under_generated_id:
  assumes "name \<noteq> []" and "skills_in \<noteq> []"
  shows "\<exists>st'. create_survey uuid4 (Some name) row_id skills_in questions_in selected_emails st
                 = (Success (take 8 uuid4), st')
          \<and> entry (surveys (load_datafile st')) (take 8 uuid4)
              = Some \<lparr>survey_id = take 8 uuid4, process = name, process_id = row_id,
                      skills = Some skills_in, questions = questions_in, creator = ''admin''\<rparr>
          \<and> entry (assignments (load_datafile st')) (take 8 uuid4) = Some selected_emails
          \<and> (\<forall>k. k \<noteq> take 8 uuid4 \<longrightarrow>
                entry (surveys (load_datafile st')) k = entry (surveys (load_datafile st)) k
              \<and> entry (assignments (load_datafile st')) k = entry (assignments (load_datafile st)) k)
          \<and> responses (load_datafile st') = responses (load_datafile st)"
proof -
  define sid where "sid = take 8 uuid4"
  define sv where "sv = \<lparr>survey_id = sid, process = name, process_id = row_id,
                      skills = Some skills_in, questions = questions_in, creator = ''admin''\<rparr>"
  define d' where "d' = (load_datafile st)\<lparr>
      surveys := Some (AList.update sid sv (get_default (surveys (load_datafile st)) [])),
      assignments := Some (AList.update sid selected_emails (get_default (assignments (load_datafile st)) []))\<rparr>"
  have c: "create_survey uuid4 (Some name) row_id skills_in questions_in selected_emails st
             = (Success sid, save_datafile d' st)"
    using assms by (simp add: create_survey_def generate_survey_id_def sid_def sv_def d'_def Let_def)
  have s: "entry (surveys d') k = (if k = sid then Some sv else entry (surveys (load_datafile st)) k)" for k
    by (simp add: d'_def entry_update)
  have a: "entry (assignments d') k = (if k = sid then Some selected_emails else entry (assignments (load_datafile st)) k)" for k
    by (simp add: d'_def entry_update)
  have r: "responses d' = responses (load_datafile st)" by (simp add: d'_def)
  from c s a r show ?thesis
    unfolding sid_def [symmetric] sv_def [symmetric] by (simp add: load_save)
qed

theorem create_survey_stores_under_generated_id_witness:
  "''Order to Cash'' \<noteq> [] \<and> [''SAP''] \<noteq> ([] :: string list)
   \<and> (\<exists>st'. create_survey ''0a1b2c3d-9c1e-4b7a-8f30-5a6d2e417c09'' (Some ''Order to Cash'') (Some 1)
               [''SAP''] [] [''b@example.com''] old_store = (Success ''0a1b2c3d'', st')
          \<and> entry (surveys (load_datafile st')) ''deadbeef'' = Some old_survey
          \<and> entry (assignments (load_datafile st')) ''0a1b2c3d'' = Some [''b@example.com''])"
proof -
  have n: "''Order to Cash'' \<noteq> []" and s: "[''SAP''] \<noteq> ([] :: string list)" by simp_all
  have t: "take 8 ''0a1b2c3d-9c1e-4b7a-8f30-5a6d2e417c09'' = ''0a1b2c3d''" by simp
  have o: "entry (surveys (load_datafile old_store)) ''deadbeef'' = Some old_survey"
    by (simp add: old_store_def load_datafile_def entry_def)
  from create_survey_stores_under_generated_id [OF n s, of "''0a1b2c3d-9c1e-4b7a-8f30-5a6d2e417c09''"
      "Some 1" "[]" "[''b@example.com'']" old_store]
  obtain st' where
    "create_survey ''0a1b2c3d-9c1e-4b7a-8f30-5a6d2e417c09'' (Some ''Order to Cash'') (Some 1)
               [''SAP''] [] [''b@example.com''] old_store = (Success ''0a1b2c3d'', st')"
    "entry (assignments (load_datafile st')) ''0a1b2c3d'' = Some [''b@example.com'']"
    "\<forall>k. k \<noteq> ''0a1b2c3d'' \<longrightarrow>
                entry (surveys (load_datafile st')) k = entry (surveys (load_datafile old_store)) k
              \<and> entry (assignments (load_datafile st')) k = entry (assignments (load_datafile old_store)) k"
    unfolding t by blast
  moreover from this have "entry (surveys (load_datafile st')) ''deadbeef'' = entry (surveys (load_datafile old_store)) ''deadbeef''"
    by simp
  ultimately show ?thesis using o by auto
qed

section \<open>Skill aggregation\<close>

lemma get_default_None [simp]: "get_default None d = d"
  by (simp add: get_default_def)

lemma get_default_Some [simp]: "get_default (Some v) d = v"
  by (simp add: get_default_def)

lemma rating_of_eq:
  "rating_of r skl = (case map_of (get_default (skill_ratings r) []) skl of
                        None \<Rightarrow> ''Low'' | Some rating \<Rightarrow> rating)"
  by (simp add: rating_of_def get_default_def)

lemma ratings_for_record:
  "ratings_for (record_rating skl rt sm) s = ratings_for sm s @ (if s = skl then [rt] else [])"
  by (simp add: ratings_for_def record_rating_def update_conv')

lemma keys_record: "fst ` set (record_rating skl rt sm) = insert skl (fst ` set sm)"
  by (simp add: record_rating_def dom_update)

lemma distinct_record: "distinct (map fst sm) \<Longrightarrow> distinct (map fst (record_rating skl rt sm))"
  by (simp add: record_rating_def distinct_update)

lemma ratings_for_selected_loop:
  "ratings_for (selected_loop r skls sm) s
     = ratings_for sm s @ map (rating_of r) (filter (\<lambda>skl. skl = s) skls)"
  by (induction skls arbitrary: sm) (auto simp: ratings_for_record)

lemma keys_selected_loop: "fst ` set (selected_loop r skls sm) = fst ` set sm \<union> set skls"
  by (induction skls arbitrary: sm) (auto simp: keys_record)

lemma distinct_selected_loop:
  "distinct (map fst sm) \<Longrightarrow> distinct (map fst (selected_loop r skls sm))"
  by (induction skls arbitrary: sm) (auto simp: distinct_record)

lemma ratings_for_responses_loop:
  "ratings_for (responses_loop rs sm) s = ratings_for sm s @ recorded_ratings rs s"
  by (induction rs arbitrary: sm)
     (simp_all add: recorded_ratings_def ratings_for_selected_loop rating_of_eq)

lemma keys_responses_loop:
  "fst ` set (responses_loop rs sm)
     = fst ` set sm \<union> (\<Union>r \<in> set rs. set (get_default (skills_selected r) []))"
  by (induction rs arbitrary: sm) (auto simp: keys_selected_loop)

lemma distinct_responses_loop:
  "distinct (map fst sm) \<Longrightarrow> distinct (map fst (responses_loop rs sm))"
  by (induction rs arbitrary: sm) (auto simp: distinct_selected_loop)

lemma ratings_for_aggregate: "ratings_for (aggregate rs) s = recorded_ratings rs s"
  using ratings_for_responses_loop [of rs "[]" s]
  by (simp add: aggregate_def ratings_for_def)

lemma keys_aggregate:
  "fst ` set (aggregate rs) = (\<Union>r \<in> set rs. set (get_default (skills_selected r) []))"
  by (simp add: aggregate_def keys_responses_loop)

lemma distinct_aggregate: "distinct (map fst (aggregate rs))"
  by (simp add: aggregate_def distinct_responses_loop)

lemma table_rows_map: "table_rows sm = map make_row sm"
  by (simp add: table_rows_def)

lemma Skill_make_row: "map Skill (map make_row sm) = map fst sm"
  by (induction sm) (auto simp: make_row_def)

lemma aggregate_entry:
  assumes "(k, l) \<in> set (aggregate rs)"
  shows "l = recorded_ratings rs k"
proof -
  from assms distinct_aggregate have "map_of (aggregate rs) k = Some l" by simp
  then have "ratings_for (aggregate rs) k = l" by (simp add: ratings_for_def get_default_def)
  then show ?thesis by (simp add: ratings_for_aggregate)
qed

lemma row_of_aggregate:
  assumes "rw \<in> set (table_rows (aggregate rs))"
  shows "rw = make_row (Skill rw, recorded_ratings rs (Skill rw))"
proof -
  from assms obtain k l where kl: "(k, l) \<in> set (aggregate rs)" and rw: "rw = make_row (k, l)"
    by (auto simp: table_rows_map)
  from kl have "l = recorded_ratings rs k" by (rule aggregate_entry)
  moreover from rw have "Skill rw = k" by (simp add: make_row_def)
  ultimately show ?thesis using rw by simp
qed

text \<open>
  C3. The list the aggregation holds for a skill is \<open>recorded_ratings\<close>: for every
  response and every skill in its selected-skill list, the entry of the response's
  rating map for that skill, or \<^verbatim>\<open>Low\<close> when the map has no entry for it. The
  table has exactly one row for each skill that some response selects, and the row
  gives the number of \<^verbatim>\<open>High\<close>, \<^verbatim>\<open>Medium\<close> and \<^verbatim>\<open>Low\<close> among the recorded
  ratings, and their total number.
\<close>

theorem aggregation_records_ratings:
  "(\<forall>s. get_default (map_of (aggregate resp_list) s) [] = recorded_ratings resp_list s)
   \<and> distinct (map Skill (table_rows (aggregate resp_list)))
   \<and> set (map Skill (table_rows (aggregate resp_list)))
       = {s. \<exists>r \<in> set resp_list. s \<in> set (get_default (skills_selected r) [])}
   \<and> (\<forall>rw \<in> set (table_rows (aggregate resp_list)).
         High rw = count_list (recorded_ratings resp_list (Skill rw)) ''High''
       \<and> Medium rw = count_list (recorded_ratings resp_list (Skill rw)) ''Medium''
       \<and> Low rw = count_list (recorded_ratings resp_list (Skill rw)) ''Low''
       \<and> Total rw = length (recorded_ratings resp_list (Skill rw)))"
proof (intro conjI allI ballI)
  fix s
  show "get_default (map_of (aggregate resp_list) s) [] = recorded_ratings resp_list s"
    using ratings_for_aggregate [of resp_list s] by (simp add: ratings_for_def)
next
  show "distinct (map Skill (table_rows (aggregate resp_list)))"
    by (simp only: table_rows_map Skill_make_row distinct_aggregate)
next
  have "set (map Skill (table_rows (aggregate resp_list))) = fst ` set (aggregate resp_list)"
    by (simp only: table_rows_map Skill_make_row set_map)
  then show "set (map Skill (table_rows (aggregate resp_list)))
       = {s. \<exists>r \<in> set resp_list. s \<in> set (get_default (skills_selected r) [])}"
    by (auto simp: keys_aggregate)
next
  fix rw assume rw: "rw \<in> set (table_rows (aggregate resp_list))"
  note e = row_of_aggregate [OF rw]
  show "High rw = count_list (recorded_ratings resp_list (Skill rw)) ''High''"
    by (subst e) (simp add: make_row_def)
  show "Medium rw = count_list (recorded_ratings resp_list (Skill rw)) ''Medium''"
    by (subst e) (simp add: make_row_def)
  show "Low rw = count_list (recorded_ratings resp_list (Skill rw)) ''Low''"
    by (subst e) (simp add: make_row_def)
  show "Total rw = length (recorded_ratings resp_list (Skill rw))"
    by (subst e) (simp add: make_row_def)
qed

lemma length_recorded:
  "length (recorded_ratings rs s) = (\<Sum>r\<leftarrow>rs. count_list (get_default (skills_selected r) []) s)"
proof -
  have "length (filter (\<lambda>skl. skl = s) xs) = count_list xs s" for xs :: "string list"
    by (induction xs) auto
  then show ?thesis
    by (simp add: recorded_ratings_def length_concat comp_def)
qed

lemma count_distinct: "distinct xs \<Longrightarrow> count_list xs s = (if s \<in> set xs then 1 else 0)"
  by (induction xs) auto

lemma sum_indicator: "(\<Sum>r\<leftarrow>rs. if P r then 1 else 0) = length (filter P rs)"
  by (induction rs) auto

lemma length_recorded_distinct:
  assumes "\<forall>r \<in> set rs. distinct (get_default (skills_selected r) [])"
  shows "length (recorded_ratings rs s)
           = length (filter (\<lambda>r. s \<in> set (get_default (skills_selected r) [])) rs)"
proof -
  have "(\<Sum>r\<leftarrow>rs. count_list (get_default (skills_selected r) []) s)
          = (\<Sum>r\<leftarrow>rs. if s \<in> set (get_default (skills_selected r) []) then 1 else 0)"
    using assms by (intro arg_cong [where f = sum_list] map_cong refl) (simp add: count_distinct)
  then show ?thesis by (simp add: length_recorded sum_indicator)
qed

lemma three_counts_le:
  "count_list l ''High'' + count_list l ''Medium'' + count_list l ''Low'' \<le> length l"
  by (induction l) auto

lemma three_counts_eq:
  "count_list l ''High'' + count_list l ''Medium'' + count_list l ''Low'' = length l
     \<longleftrightarrow> set l \<subseteq> {''High'', ''Medium'', ''Low''}"
proof (induction l)
  case Nil
  then show ?case by simp
next
  case (Cons x l)
  have le: "count_list l ''High'' + count_list l ''Medium'' + count_list l ''Low'' \<le> length l"
    by (rule three_counts_le)
  show ?case
  proof (cases "x \<in> {''High'', ''Medium'', ''Low''}")
    case True
    then show ?thesis using Cons.IH by auto
  next
    case False
    then show ?thesis using le by auto
  qed
qed

lemma table_rows_unrated:
  "table_rows (aggregate unrated)
     = [\<lparr>Skill = ''SQL'', High = 1, Medium = 0, Low = 0, Total = 2\<rparr>,
        \<lparr>Skill = ''X'', High = 0, Medium = 0, Low = 1, Total = 1\<rparr>]"
  by (simp add: unrated_def table_rows_def aggregate_def record_rating_def rating_of_def make_row_def)

lemma recorded_unrated:
  "recorded_ratings unrated ''X'' = [''Low'']"
  "recorded_ratings unrated ''SQL'' = [''High'', ''Expert'']"
  by (simp_all add: unrated_def recorded_ratings_def)

theorem aggregation_records_ratings_witness:
  "\<lparr>Skill = ''X'', High = 0, Medium = 0, Low = 1, Total = 1\<rparr> \<in> set (table_rows (aggregate unrated))
   \<and> get_default (map_of (aggregate unrated) ''X'') [] = [''Low'']
   \<and> Low \<lparr>Skill = ''X'', High = 0, Medium = 0, Low = 1, Total = 1\<rparr>
       = count_list (recorded_ratings unrated ''X'') ''Low''
   \<and> set (map Skill (table_rows (aggregate unrated))) = {''SQL'', ''X''}"
proof -
  have m: "\<lparr>Skill = ''X'', High = 0, Medium = 0, Low = 1, Total = 1\<rparr> \<in> set (table_rows (aggregate unrated))"
    by (simp add: table_rows_unrated)
  note t = aggregation_records_ratings [of unrated]
  from t have 1: "get_default (map_of (aggregate unrated) ''X'') [] = recorded_ratings unrated ''X''"
    by blast
  from t m have 2: "Low \<lparr>Skill = ''X'', High = 0, Medium = 0, Low = 1, Total = 1\<rparr>
       = count_list (recorded_ratings unrated (Skill \<lparr>Skill = ''X'', High = 0, Medium = 0, Low = 1, Total = 1\<rparr>)) ''Low''"
    by blast
  have 3: "set (map Skill (table_rows (aggregate unrated))) = {''SQL'', ''X''}"
    by (simp add: table_rows_unrated)
  from m 1 2 3 show ?thesis by (simp add: recorded_unrated)
qed

text \<open>
  C10. The total of a row is not always the number of responses that selected the
  skill: one response that lists \<^verbatim>\<open>SQL\<close> twice gives a row with total 2.
\<close>

theorem total_counts_responses_counterexample:
  "table_rows (aggregate twice_selected)
     = [\<lparr>Skill = ''SQL'', High = 2, Medium = 0, Low = 0, Total = 2\<rparr>]
   \<and> length (filter (\<lambda>r. ''SQL'' \<in> set (get_default (skills_selected r) [])) twice_selected) = 1"
  by (simp add: twice_selected_def table_rows_def aggregate_def record_rating_def rating_of_def make_row_def)

text \<open>
  C10, as the code has it: in every row, the total is the number of times the skill
  occurs in the selected-skill lists of the responses, which is the number of responses
  that selected it when no response lists a skill twice; the three counts add up to at
  most the total, and to the total exactly when every rating recorded for the skill is
  \<^verbatim>\<open>High\<close>, \<^verbatim>\<open>Medium\<close> or \<^verbatim>\<open>Low\<close>.
\<close>

theorem total_counts_occurrences:
  "\<forall>rw \<in> set (table_rows (aggregate resp_list)).
      Total rw = (\<Sum>r\<leftarrow>resp_list. count_list (get_default (skills_selected r) []) (Skill rw))
    \<and> ((\<forall>r \<in> set resp_list. distinct (get_default (skills_selected r) [])) \<longrightarrow>
         Total rw = length (filter (\<lambda>r. Skill rw \<in> set (get_default (skills_selected r) [])) resp_list))
    \<and> High rw + Medium rw + Low rw \<le> Total rw
    \<and> (High rw + Medium rw + Low rw = Total rw
         \<longleftrightarrow> set (recorded_ratings resp_list (Skill rw)) \<subseteq> {''High'', ''Medium'', ''Low''})"
proof
  fix rw assume rw: "rw \<in> set (table_rows (aggregate resp_list))"
  define l where "l = recorded_ratings resp_list (Skill rw)"
  have e: "rw = make_row (Skill rw, l)"
    unfolding l_def by (rule row_of_aggregate [OF rw])
  have h: "High rw = count_list l ''High''" by (subst e) (simp add: make_row_def)
  have m: "Medium rw = count_list l ''Medium''" by (subst e) (simp add: make_row_def)
  have lw: "Low rw = count_list l ''Low''" by (subst e) (simp add: make_row_def)
  have t: "Total rw = length l" by (subst e) (simp add: make_row_def)
  have 1: "Total rw = (\<Sum>r\<leftarrow>resp_list. count_list (get_default (skills_selected r) []) (Skill rw))"
    unfolding t l_def by (rule length_recorded)
  have 2: "(\<forall>r \<in> set resp_list. distinct (get_default (skills_selected r) [])) \<longrightarrow>
         Total rw = length (filter (\<lambda>r. Skill rw \<in> set (get_default (skills_selected r) [])) resp_list)"
    unfolding t l_def using length_recorded_distinct by blast
  have 3: "High rw + Medium rw + Low rw \<le> Total rw"
    unfolding h m lw t by (rule three_counts_le)
  have 4: "High rw + Medium rw + Low rw = Total rw \<longleftrightarrow> set l \<subseteq> {''High'', ''Medium'', ''Low''}"
    unfolding h m lw t by (rule three_counts_eq)
  from 1 2 3 4 show "Total rw = (\<Sum>r\<leftarrow>resp_list. count_list (get_default (skills_selected r) []) (Skill rw))
    \<and> ((\<forall>r \<in> set resp_list. distinct (get_default (skills_selected r) [])) \<longrightarrow>
         Total rw = length (filter (\<lambda>r. Skill rw \<in> set (get_default (skills_selected r) [])) resp_list))
    \<and> High rw + Medium rw + Low rw \<le> Total rw
    \<and> (High rw + Medium rw + Low rw = Total rw
         \<longleftrightarrow> set (recorded_ratings resp_list (Skill rw)) \<subseteq> {''High'', ''Medium'', ''Low''})"
    unfolding l_def by (intro conjI)
qed

theorem total_counts_occurrences_witness:
  "\<lparr>Skill = ''SQL'', High = 1, Medium = 0, Low = 0, Total = 2\<rparr> \<in> set (table_rows (aggregate unrated))
   \<and> list_all (\<lambda>r. distinct (get_default (skills_selected r) [])) unrated
   \<and> length (filter (\<lambda>r. ''SQL'' \<in> set (get_default (skills_selected r) [])) unrated) = 2
   \<and> \<not> set (recorded_ratings unrated ''SQL'') \<subseteq> {''High'', ''Medium'', ''Low''}
   \<and> High \<lparr>Skill = ''SQL'', High = 1, Medium = 0, Low = 0, Total = 2\<rparr>
       + Medium \<lparr>Skill = ''SQL'', High = 1, Medium = 0, Low = 0, Total = 2\<rparr>
       + Low \<lparr>Skill = ''SQL'', High = 1, Medium = 0, Low = 0, Total = 2\<rparr>
     < Total \<lparr>Skill = ''SQL'', High = 1, Medium = 0, Low = 0, Total = 2\<rparr>"
proof -
  let ?rw = "\<lparr>Skill = ''SQL'', High = 1, Medium = 0, Low = 0, Total = 2\<rparr>"
  have m: "?rw \<in> set (table_rows (aggregate unrated))"
    by (simp add: table_rows_unrated)
  have d: "\<forall>r \<in> set unrated. distinct (get_default (skills_selected r) [])"
    by (simp add: unrated_def)
  have n: "\<not> set (recorded_ratings unrated ''SQL'') \<subseteq> {''High'', ''Medium'', ''Low''}"
    by (simp add: recorded_unrated)
  from total_counts_occurrences [of unrated] m have
    t: "((\<forall>r \<in> set unrated. distinct (get_default (skills_selected r) [])) \<longrightarrow>
         Total ?rw = length (filter (\<lambda>r. Skill ?rw \<in> set (get_default (skills_selected r) [])) unrated))"
    and le: "High ?rw + Medium ?rw + Low ?rw \<le> Total ?rw"
    and eq: "(High ?rw + Medium ?rw + Low ?rw = Total ?rw
         \<longleftrightarrow> set (recorded_ratings unrated (Skill ?rw)) \<subseteq> {''High'', ''Medium'', ''Low''})"
    by blast+
  from t d have 1: "length (filter (\<lambda>r. ''SQL'' \<in> set (get_default (skills_selected r) [])) unrated) = 2"
    by simp
  from eq n have "High ?rw + Medium ?rw + Low ?rw \<noteq> Total ?rw" by simp
  with le have 2: "High ?rw + Medium ?rw + Low ?rw < Total ?rw" by linarith
  from d have d': "list_all (\<lambda>r. distinct (get_default (skills_selected r) [])) unrated"
    by (simp add: list_all_iff)
  from m d' 1 n 2 show ?thesis by (intro conjI)
qed

section \<open>Gap analysis\<close>

lemma iteration_order_id: "iteration_order (\<lambda>s. s)"
  by (simp add: iteration_order_def)

lemma iteration_order_rev: "iteration_order rev"
  by (simp add: iteration_order_def)

text \<open>
  C4. The list shown for the missing skills is not determined by the survey and the
  responses: it is \<^verbatim>\<open>list(missing)\<close>, in the iteration order of a set of strings,
  and two iteration orders show two different lists for the same survey and responses
  (one of them not sorted).
\<close>

theorem gap_list_deterministic_counterexample:
  "iteration_order (\<lambda>s. s) \<and> iteration_order rev
   \<and> gap_analysis (\<lambda>s. s) migration_survey (aggregate unrated) = Listed [''etl'', ''python'']
   \<and> gap_analysis rev migration_survey (aggregate unrated) = Listed [''python'', ''etl'']"
proof -
  have a: "aggregate unrated = [(''SQL'', [''High'', ''Expert'']), (''X'', [''Low''])]"
    by (simp add: unrated_def aggregate_def record_rating_def rating_of_def)
  have m: "missing_skills migration_survey (aggregate unrated) = [''etl'', ''python'']"
    unfolding a by (simp add: missing_skills_def migration_survey_def py_set_def set_minus_def
        lower_def lower_char_def upper_letters_def lower_letters_def)
  show ?thesis
    by (simp add: gap_analysis_def m iteration_order_id iteration_order_rev)
qed

lemma set_missing_skills:
  "set (missing_skills survey sm)
     = lower ` set (get_default (skills survey) []) - lower ` fst ` set sm"
  by (auto simp: missing_skills_def py_set_def set_minus_def)

lemma distinct_missing_skills: "distinct (missing_skills survey sm)"
  by (simp add: missing_skills_def py_set_def set_minus_def)

text \<open>
  C4, as the code has it: the missing skills are the lower-cased skills of the survey
  minus the lower-cased skills of the aggregation, which are the skills some response
  selects. When there are some, the list shown holds exactly these, each once, in the
  set's iteration order; when there are none, the text \<^verbatim>\<open>None\<close> is shown.
\<close>

theorem gap_is_set_difference:
  assumes "iteration_order iter"
  shows "set (missing_skills survey (aggregate resp_list))
           = lower ` set (get_default (skills survey) []) - lower ` fst ` set (aggregate resp_list)
       \<and> fst ` set (aggregate resp_list)
           = {s. \<exists>r \<in> set resp_list. s \<in> set (get_default (skills_selected r) [])}
       \<and> (case gap_analysis iter survey (aggregate resp_list) of
             Listed l \<Rightarrow> l \<noteq> [] \<and> distinct l
                        \<and> set l = lower ` set (get_default (skills survey) [])
                                   - lower ` fst ` set (aggregate resp_list)
           | NoneText \<Rightarrow> lower ` set (get_default (skills survey) [])
                          \<subseteq> lower ` fst ` set (aggregate resp_list))"
proof -
  let ?m = "missing_skills survey (aggregate resp_list)"
  have d: "distinct ?m" by (rule distinct_missing_skills)
  with assms have i: "distinct (iter ?m)" "set (iter ?m) = set ?m"
    by (simp_all add: iteration_order_def)
  have k: "fst ` set (aggregate resp_list)
           = {s. \<exists>r \<in> set resp_list. s \<in> set (get_default (skills_selected r) [])}"
    by (auto simp: keys_aggregate)
  have g: "case gap_analysis iter survey (aggregate resp_list) of
             Listed l \<Rightarrow> l \<noteq> [] \<and> distinct l
                        \<and> set l = lower ` set (get_default (skills survey) [])
                                   - lower ` fst ` set (aggregate resp_list)
           | NoneText \<Rightarrow> lower ` set (get_default (skills survey) [])
                          \<subseteq> lower ` fst ` set (aggregate resp_list)"
  proof (cases "?m = []")
    case True
    then have "set ?m = {}" by simp
    then have "lower ` set (get_default (skills survey) []) \<subseteq> lower ` fst ` set (aggregate resp_list)"
      unfolding set_missing_skills by blast
    with True show ?thesis by (simp add: gap_analysis_def)
  next
    case False
    with i have "iter ?m \<noteq> []" by auto
    with False i show ?thesis
      by (simp add: gap_analysis_def set_missing_skills)
  qed
  from set_missing_skills [of survey "aggregate resp_list"] k g show ?thesis
    by (intro conjI)
qed

theorem gap_is_set_difference_witness:
  "iteration_order rev
   \<and> gap_analysis rev migration_survey (aggregate unrated) = Listed [''python'', ''etl'']
   \<and> set [''python'', ''etl''] = lower ` set (get_default (skills migration_survey) [])
                                   - lower ` fst ` set (aggregate unrated)"
proof -
  have g: "gap_analysis rev migration_survey (aggregate unrated) = Listed [''python'', ''etl'']"
  proof -
    have a: "aggregate unrated = [(''SQL'', [''High'', ''Expert'']), (''X'', [''Low''])]"
      by (simp add: unrated_def aggregate_def record_rating_def rating_of_def)
    have m: "missing_skills migration_survey (aggregate unrated) = [''etl'', ''python'']"
      unfolding a by (simp add: missing_skills_def migration_survey_def py_set_def set_minus_def
          lower_def lower_char_def upper_letters_def lower_letters_def)
    show ?thesis by (simp add: gap_analysis_def m)
  qed
  from gap_is_set_difference [OF iteration_order_rev, of migration_survey unrated] g
  have "set [''python'', ''etl''] = lower ` set (get_default (skills migration_survey) [])
                                   - lower ` fst ` set (aggregate unrated)"
    by simp
  with g iteration_order_rev show ?thesis by simp
qed

section \<open>Skill extraction\<close>

lemma lower_char_colon: "lower_char c = CHR '':'' \<longleftrightarrow> c = CHR '':''"
  by (simp add: lower_char_def upper_letters_def lower_letters_def)

lemma colon_lower_char: "CHR '':'' = lower_char c \<longleftrightarrow> c = CHR '':''"
  using lower_char_colon [of c] by auto

lemma colon_in_lower: "CHR '':'' \<in> set (lower s) \<longleftrightarrow> CHR '':'' \<in> set s"
  by (auto simp: lower_def image_iff colon_lower_char)

lemma lower_skills: "lower ''skills:'' = ''skills:''"
  by (simp add: lower_def lower_char_def upper_letters_def lower_letters_def)

lemma contains_skills_colon:
  assumes "contains_ci ln ''skills:''"
  shows "CHR '':'' \<in> set ln"
proof -
  from assms obtain pre post where "lower ln = pre @ lower ''skills:'' @ post"
    by (auto simp: contains_ci_def)
  moreover have "CHR '':'' \<in> set (lower ''skills:'')" by (simp add: colon_in_lower)
  ultimately have "CHR '':'' \<in> set (lower ln)" by simp
  then show ?thesis by (simp add: colon_in_lower)
qed

lemma split1_second_append:
  "sep \<notin> set head \<Longrightarrow> split1_second sep (head @ sep # rest) = Inr rest"
  by (induction head) auto

lemma split_at_first:
  assumes "sep \<in> set s"
  shows "\<exists>head rest. s = head @ sep # rest \<and> sep \<notin> set head"
  using assms by (metis split_list_first)

lemma split_from_pieces:
  "sep \<notin> set cur \<Longrightarrow> p \<in> set (split_from sep cur s) \<Longrightarrow> sep \<notin> set p"
proof (induction s arbitrary: cur)
  case Nil
  then show ?case by simp
next
  case (Cons c s)
  show ?case
  proof (cases "c = sep")
    case True
    with Cons.prems have "p = cur \<or> p \<in> set (split_from sep [] s)" by simp
    then show ?thesis
    proof
      assume "p = cur"
      with Cons.prems show ?thesis by simp
    next
      assume "p \<in> set (split_from sep [] s)"
      with Cons.IH [of "[]"] show ?thesis by simp
    qed
  next
    case False
    with Cons.prems have "p \<in> set (split_from sep (cur @ [c]) s)" by simp
    moreover from False Cons.prems have "sep \<notin> set (cur @ [c])" by simp
    ultimately show ?thesis by (rule Cons.IH [rotated])
  qed
qed

lemma split_from_not_Nil: "split_from sep cur s \<noteq> []"
  by (induction s arbitrary: cur) simp_all

lemma split_from_join: "join sep (split_from sep cur s) = cur @ s"
proof (induction s arbitrary: cur)
  case Nil
  then show ?case by (simp add: join_def)
next
  case (Cons c s)
  show ?case
  proof (cases "c = sep")
    case True
    have "join sep (cur # split_from sep [] s) = cur @ sep # join sep (split_from sep [] s)"
      using split_from_not_Nil [of sep "[]" s]
      by (cases "split_from sep [] s") (simp_all add: join_def)
    with True Cons.IH [of "[]"] show ?thesis by simp
  next
    case False
    with Cons.IH [of "cur @ [c]"] show ?thesis by simp
  qed
qed

lemma split_on_spec:
  "join sep (split_on sep s) = s \<and> (\<forall>p \<in> set (split_on sep s). sep \<notin> set p)"
  using split_from_pieces [of sep "[]" _ s] by (simp add: split_on_def split_from_join)

lemma strip_where_spec:
  "\<exists>pre post. s = pre @ strip_where p s @ post \<and> (\<forall>c \<in> set pre. p c) \<and> (\<forall>c \<in> set post. p c)
     \<and> (strip_where p s = [] \<or> (\<not> p (hd (strip_where p s)) \<and> \<not> p (last (strip_where p s))))"
proof -
  define a where "a = takeWhile p s"
  define b where "b = dropWhile p s"
  define c where "c = rev (takeWhile p (rev b))"
  have s: "s = a @ b" by (simp add: a_def b_def)
  have "rev b = takeWhile p (rev b) @ dropWhile p (rev b)" by simp
  then have "b = rev (dropWhile p (rev b)) @ c"
    unfolding c_def by (metis rev_append rev_rev_ident)
  then have b: "b = strip_where p s @ c" by (simp add: strip_where_def b_def)
  have pa: "\<forall>x \<in> set a. p x" unfolding a_def by (auto dest: set_takeWhileD)
  have pc: "\<forall>x \<in> set c. p x" unfolding c_def by (auto dest: set_takeWhileD)
  have e: "strip_where p s = [] \<or> (\<not> p (hd (strip_where p s)) \<and> \<not> p (last (strip_where p s)))"
  proof (cases "strip_where p s = []")
    case True
    then show ?thesis by simp
  next
    case False
    then have ne: "dropWhile p (rev b) \<noteq> []" by (simp add: strip_where_def b_def)
    then have "\<not> p (hd (dropWhile p (rev b)))" by (rule hd_dropWhile)
    then have l: "\<not> p (last (strip_where p s))"
      using ne by (simp add: strip_where_def b_def last_rev)
    from False b have "b \<noteq> []" by auto
    then have hb: "\<not> p (hd b)" unfolding b_def by (rule hd_dropWhile)
    from False b have "hd b = hd (strip_where p s)" by (metis hd_append2)
    with hb l show ?thesis by simp
  qed
  from s b have "s = a @ strip_where p s @ c" by simp
  with pa pc e show ?thesis by blast
qed

lemma comma_list_eq:
  "comma_list parts = filter (\<lambda>s. s \<noteq> []) (map strip (split_on CHR '','' parts))"
  by (simp add: comma_list_def filter_map comp_def)

lemma scan_lines_first:
  assumes "\<forall>l \<in> set before. \<not> contains_ci l ''skills:''" and "contains_ci ln ''skills:''"
    and "ln = head @ CHR '':'' # parts" and "CHR '':'' \<notin> set head"
  shows "scan_lines (before @ ln # after) = Some (Inr (comma_list parts))"
  using assms
proof (induction before)
  case Nil
  then show ?case by (simp add: contains_ci_code lower_skills split1_second_append del: str_in.simps)
next
  case (Cons l before)
  then show ?case by (simp add: contains_ci_code lower_skills del: str_in.simps)
qed

text \<open>
  C6. When some line of the text contains \<^verbatim>\<open>skills:\<close>, case ignored,
  \<open>extract_skills_from_text\<close> returns, whatever the iteration order of sets and
  whatever follows that line: the first such line, cut after its first colon, the
  remainder split at the commas, every piece stripped of blanks, and the empty ones
  dropped, in order. The text \<^verbatim>\<open>Skills: Excel, SAP, Communication\<close> gives the
  three skills.
\<close>

theorem extract_declared_skills_line:
  "((\<exists>ln \<in> set (splitlines text). contains_ci ln ''skills:'') \<longrightarrow>
      (\<exists>before ln after head parts.
          splitlines text = before @ ln # after
        \<and> (\<forall>l \<in> set before. \<not> contains_ci l ''skills:'') \<and> contains_ci ln ''skills:''
        \<and> ln = head @ CHR '':'' # parts \<and> CHR '':'' \<notin> set head
        \<and> extract_skills_from_text iter text
            = Inr (filter (\<lambda>s. s \<noteq> []) (map strip (split_on CHR '','' parts)))))
   \<and> extract_skills_from_text iter ''Skills: Excel, SAP, Communication''
       = Inr [''Excel'', ''SAP'', ''Communication'']"
proof
  show "(\<exists>ln \<in> set (splitlines text). contains_ci ln ''skills:'') \<longrightarrow>
      (\<exists>before ln after head parts.
          splitlines text = before @ ln # after
        \<and> (\<forall>l \<in> set before. \<not> contains_ci l ''skills:'') \<and> contains_ci ln ''skills:''
        \<and> ln = head @ CHR '':'' # parts \<and> CHR '':'' \<notin> set head
        \<and> extract_skills_from_text iter text
            = Inr (filter (\<lambda>s. s \<noteq> []) (map strip (split_on CHR '','' parts))))"
  proof
    assume "\<exists>ln \<in> set (splitlines text). contains_ci ln ''skills:''"
    then have "\<exists>x \<in> set (splitlines text). (\<lambda>l. contains_ci l ''skills:'') x" .
    from split_list_first_prop [OF this] obtain before ln after where
      sp: "splitlines text = before @ ln # after" and ln: "contains_ci ln ''skills:''"
      and bf: "\<forall>l \<in> set before. \<not> contains_ci l ''skills:''"
      by auto
    from split_at_first [OF contains_skills_colon [OF ln]] obtain head parts where
      hp: "ln = head @ CHR '':'' # parts" and nh: "CHR '':'' \<notin> set head"
      by auto
    have "scan_lines (before @ ln # after) = Some (Inr (comma_list parts))"
      using bf ln hp nh by (rule scan_lines_first)
    then have ex: "extract_skills_from_text iter text
            = Inr (filter (\<lambda>s. s \<noteq> []) (map strip (split_on CHR '','' parts)))"
      by (simp add: extract_skills_from_text_def comma_list_eq sp)
    show "\<exists>before ln after head parts.
          splitlines text = before @ ln # after
        \<and> (\<forall>l \<in> set before. \<not> contains_ci l ''skills:'') \<and> contains_ci ln ''skills:''
        \<and> ln = head @ CHR '':'' # parts \<and> CHR '':'' \<notin> set head
        \<and> extract_skills_from_text iter text
            = Inr (filter (\<lambda>s. s \<noteq> []) (map strip (split_on CHR '','' parts)))"
      by (intro exI [of _ before] exI [of _ ln] exI [of _ after] exI [of _ head] exI [of _ parts]
          conjI sp bf ln hp nh ex)
  qed
  show "extract_skills_from_text iter ''Skills: Excel, SAP, Communication''
       = Inr [''Excel'', ''SAP'', ''Communication'']"
    by code_simp
qed

lemma splitlines_resume_text:
  "splitlines resume_text
     = [''Jane Roe, Analyst'', ''Key Skills: Excel,  SAP ,,Communication '', ''Other skills: Golf'']"
  by code_simp

theorem extract_declared_skills_line_witness:
  "(\<exists>ln \<in> set (splitlines resume_text). contains_ci ln ''skills:'')
   \<and> (\<exists>parts. extract_skills_from_text rev resume_text
                 = Inr (filter (\<lambda>s. s \<noteq> []) (map strip (split_on CHR '','' parts))))
   \<and> extract_skills_from_text rev resume_text = Inr [''Excel'', ''SAP'', ''Communication'']"
proof -
  have c: "contains_ci ''Key Skills: Excel,  SAP ,,Communication '' ''skills:''"
    unfolding contains_ci_code by code_simp
  have h: "\<exists>ln \<in> set (splitlines resume_text). contains_ci ln ''skills:''"
    unfolding splitlines_resume_text using c by simp
  from extract_declared_skills_line [of resume_text rev] h
  have e: "\<exists>parts. extract_skills_from_text rev resume_text
                 = Inr (filter (\<lambda>s. s \<noteq> []) (map strip (split_on CHR '','' parts)))"
    by blast
  have v: "extract_skills_from_text rev resume_text = Inr [''Excel'', ''SAP'', ''Communication'']"
    by code_simp
  from h e v show ?thesis by (intro conjI)
qed

section \<open>Resume matching\<close>

lemma match_loop_filter:
  "match_loop skill_lower resumes matches
     = matches @ map fst (filter (\<lambda>item. str_in skill_lower (lower (snd item))) resumes)"
  by (induction resumes arbitrary: matches) auto

lemma match_resumes_filter:
  "match_resumes_for_skill skill resumes
     = map fst (filter (\<lambda>item. contains_ci (snd item) skill) resumes)"
  by (simp add: match_resumes_for_skill_def match_loop_filter contains_ci_code)

lemma split1_second_total: "sep \<in> set s \<Longrightarrow> \<exists>rest. split1_second sep s = Inr rest"
  by (induction s) auto

lemma scan_lines_total: "scan_lines lines = Some result \<Longrightarrow> \<exists>tokens. result = Inr tokens"
proof (induction lines)
  case Nil
  then show ?case by simp
next
  case (Cons ln lines)
  show ?case
  proof (cases "str_in ''skills:'' (lower ln)")
    case True
    then have "contains_ci ln ''skills:''" by (simp add: contains_ci_code lower_skills)
    then have "CHR '':'' \<in> set ln" by (rule contains_skills_colon)
    from split1_second_total [OF this] obtain rest where "split1_second CHR '':'' ln = Inr rest" ..
    with True Cons.prems show ?thesis by auto
  next
    case False
    with Cons show ?thesis by simp
  qed
qed

lemma extract_total: "\<exists>tokens. extract_skills_from_text iter txt = Inr tokens"
proof (cases "scan_lines (splitlines txt)")
  case None
  then show ?thesis by (simp add: extract_skills_from_text_def)
next
  case (Some result)
  from scan_lines_total [OF this] Some show ?thesis by (auto simp: extract_skills_from_text_def)
qed

lemma extract_tokens: "extract_skills_from_text iter txt = Inr (extracted_tokens iter txt)"
  using extract_total [of iter "txt"] by (auto simp: extracted_tokens_def)

lemma fallback_loop_filter:
  "fallback_loop iter ms resumes suggestions
     = Inr (suggestions
            @ map fst (filter (\<lambda>item. ms \<in> lower ` set (extracted_tokens iter (snd item))) resumes))"
  by (induction resumes arbitrary: suggestions) (auto simp: extract_tokens)

text \<open>
  C5. \<open>match_resumes_for_skill\<close> returns, in the order of the resumes, exactly the names
  of the resumes whose text contains the skill, case ignored. The matching shown for a
  missing skill is these direct matches whenever there is one, whatever the token
  extraction would give; only when there is none is it the fallback: the resumes among
  whose extracted tokens, lower-cased, the skill appears, or no match at all.
\<close>

theorem direct_matches_then_fallback:
  "match_resumes_for_skill skill resumes
     = map fst (filter (\<lambda>item. contains_ci (snd item) skill) resumes)
   \<and> resume_matching iter skill resumes
     = Inr (if match_resumes_for_skill skill resumes \<noteq> []
            then Matches (match_resumes_for_skill skill resumes)
            else if map fst (filter (\<lambda>item. skill \<in> lower ` set (extracted_tokens iter (snd item))) resumes) \<noteq> []
            then FallbackMatches
                   (map fst (filter (\<lambda>item. skill \<in> lower ` set (extracted_tokens iter (snd item))) resumes))
            else NoMatches)"
proof
  show "match_resumes_for_skill skill resumes
     = map fst (filter (\<lambda>item. contains_ci (snd item) skill) resumes)"
    by (rule match_resumes_filter)
  show "resume_matching iter skill resumes
     = Inr (if match_resumes_for_skill skill resumes \<noteq> []
            then Matches (match_resumes_for_skill skill resumes)
            else if map fst (filter (\<lambda>item. skill \<in> lower ` set (extracted_tokens iter (snd item))) resumes) \<noteq> []
            then FallbackMatches
                   (map fst (filter (\<lambda>item. skill \<in> lower ` set (extracted_tokens iter (snd item))) resumes))
            else NoMatches)"
    by (simp add: resume_matching_def Let_def fallback_loop_filter)
qed

theorem direct_matches_then_fallback_witness:
  "match_resumes_for_skill ''sql'' two_resumes = [''joe.txt'']
   \<and> resume_matching rev ''sql'' two_resumes = Inr (Matches [''joe.txt''])
   \<and> match_resumes_for_skill ''cobol'' two_resumes = []
   \<and> resume_matching rev ''cobol'' two_resumes = Inr NoMatches"
proof -
  have 1: "match_resumes_for_skill ''sql'' two_resumes = [''joe.txt'']" by code_simp
  have 2: "match_resumes_for_skill ''cobol'' two_resumes = []" by code_simp
  have 3: "resume_matching rev ''cobol'' two_resumes = Inr NoMatches" by code_simp
  from direct_matches_then_fallback [of "''sql''" two_resumes rev] 1
  have 4: "resume_matching rev ''sql'' two_resumes = Inr (Matches [''joe.txt''])" by simp
  from direct_matches_then_fallback [of "''cobol''" two_resumes rev] 2 3
  have "map fst (filter (\<lambda>item. ''cobol'' \<in> lower ` set (extracted_tokens rev (snd item))) two_resumes) = []"
    by (simp split: if_splits)
  from 1 2 3 4 show ?thesis by (intro conjI)
qed

section \<open>The built-ins on Latin-1 text\<close>

text \<open>
  The model on code points above 127: capitals are lower-cased, the no-break space is
  stripped, next line ends a line, and a skill matches a resume or a selection that
  differs from it in case only.
\<close>

lemma lower_latin1: "lower [CHR 0xC9, CHR ''t'', CHR 0xC9, CHR 0xD7, CHR 0xDF] = [CHR 0xE9, CHR ''t'', CHR 0xE9, CHR 0xD7, CHR 0xDF]"
  by code_simp

lemma extract_no_break_space:
  "extract_skills_from_text iter (''Skills: A,'' @ [CHR 0xA0] @ ''B'' @ [CHR 0xA0]) = Inr [''A'', ''B'']"
  by code_simp

lemma extract_next_line:
  "extract_skills_from_text iter (''x:'' @ [CHR 0x85] @ ''Skills: A, B'') = Inr [''A'', ''B'']"
  by code_simp

lemma match_latin1:
  "match_resumes_for_skill [CHR 0xE9] [(''r.txt'', [CHR 0xC9])] = [''r.txt'']"
  by code_simp

lemma gap_latin1:
  "gap_analysis iter
     \<lparr>survey_id = ''0a1b2c3d'', process = ''p'', process_id = None, skills = Some [[CHR 0xC9]],
      questions = [], creator = ''admin''\<rparr>
     (aggregate [\<lparr>respondent_email = ''a@example.com'', skills_selected = Some [[CHR 0xE9]],
                  skill_ratings = None\<rparr>]) = NoneText"
  by code_simp

lemma istitle_latin1:
  "istitle [CHR 0xC9, CHR ''t'', CHR 0xE9] \<and> \<not> istitle [CHR 0xE9, CHR ''t'', CHR 0xE9]
   \<and> istitle [CHR ''A'', CHR 0xDF, CHR 0xB5] \<and> \<not> istitle [CHR ''A'', CHR 0xD7, CHR ''b'']"
  by code_simp

end
